theory Spec2Isabelle
  imports Complex_Main
begin

section \<open>Python list slicing\<close>

text \<open>
  The history getters of the monitors and of the event bus all return
  \<^verbatim>\<open>history[-limit:]\<close>.  Python's \<^verbatim>\<open>xs[i:]\<close> starts at \<open>len(xs) + i\<close> (clamped
  at 0) when \<open>i\<close> is negative and at \<open>i\<close> (clamped at \<open>len(xs)\<close>) otherwise; in
  particular \<^verbatim>\<open>xs[-0:]\<close> is \<^verbatim>\<open>xs[0:]\<close>.
\<close>

definition py_slice_from :: "'a list \<Rightarrow> int \<Rightarrow> 'a list" where
  "py_slice_from xs i =
     (if i < 0 then drop (nat (int (length xs) + i)) xs else drop (nat i) xs)"

text \<open>The \<open>n\<close> last elements of a list, in their order.\<close>

definition last_n :: "nat \<Rightarrow> 'a list \<Rightarrow> 'a list" where
  "last_n n xs = drop (length xs - n) xs"

text \<open>Timestamps are the readings of \<^verbatim>\<open>time.time()\<close>; only their identity matters.\<close>

type_synonym timestamp = real

section \<open>components/game\_monitor/connection\_monitor.py\<close>

text \<open>
  The quality strings of \<^verbatim>\<open>_assess_connection_quality\<close>, the reasons of
  \<^verbatim>\<open>connection_lost\<close> and the kinds of \<^verbatim>\<open>connection_established\<close>.
\<close>

datatype quality =
  no_connection | excellent | good | fair | poor | very_poor | unknown_quality

datatype lost_reason = unknown_reason | internet_disconnected | game_servers_unreachable

datatype connection_type = internet_type | game_servers_type

text \<open>
  What the network answers to one \<^verbatim>\<open>connect_ex\<close> of \<^verbatim>\<open>_test_internet_connectivity\<close>:
  result 0 after a measured time in milliseconds, a non-zero result, or an exception.
\<close>

datatype connect_result = Connect_ok real | Connect_failed | Connect_raised string

text \<open>
  An entry of \<^verbatim>\<open>failed_targets\<close>: \<^verbatim>\<open>f"{host}:{port}"\<close> or
  \<^verbatim>\<open>f"{host}:{port} - {error}"\<close>, kept as its parts.
\<close>

datatype failed_target = Failed string nat | Failed_error string nat string

record internet_status =
  inet_connected :: bool
  inet_response_times :: "real list"
  inet_failed_targets :: "failed_target list"
  inet_avg_response_time :: "real option"

definition test_targets :: "(string \<times> nat) list" where
  "test_targets = [(''google.com'', 80), (''8.8.8.8'', 53), (''1.1.1.1'', 53)]"

text \<open>The loop body of \<^verbatim>\<open>_test_internet_connectivity\<close> over
  \<open>(successful_tests, response_times, failed_targets)\<close>.\<close>

fun test_target ::
  "(string \<times> nat \<Rightarrow> connect_result) \<Rightarrow> nat \<times> real list \<times> failed_target list \<Rightarrow>
   string \<times> nat \<Rightarrow> nat \<times> real list \<times> failed_target list" where
  "test_target probe (successful, rtimes, failed) (host, port) =
     (case probe (host, port) of
        Connect_ok response_time \<Rightarrow> (successful + 1, rtimes @ [response_time], failed)
      | Connect_failed \<Rightarrow> (successful, rtimes, failed @ [Failed host port])
      | Connect_raised e \<Rightarrow> (successful, rtimes, failed @ [Failed_error host port e]))"

definition test_internet_connectivity ::
  "(string \<times> nat \<Rightarrow> connect_result) \<Rightarrow> internet_status" where
  "test_internet_connectivity probe =
     (case foldl (test_target probe) (0, [], []) test_targets of
        (successful, rtimes, failed) \<Rightarrow>
          \<lparr> inet_connected = (successful > 0),
            inet_response_times = rtimes,
            inet_failed_targets = failed,
            inet_avg_response_time =
              (if rtimes \<noteq> [] then Some (sum_list rtimes / real (length rtimes)) else None) \<rparr>)"

text \<open>
  What one game server answers in \<^verbatim>\<open>_test_game_servers\<close>: an HTTP response (status
  code, measured time), a \<^verbatim>\<open>RequestException\<close> followed by the outcome of the socket
  fallback, or another exception, which leaves the loop for the outer handler.
\<close>

datatype socket_fallback = Socket_ok | Socket_failed | Socket_raised

datatype server_result =
  Http_response nat real | Request_exception string socket_fallback | Other_exception string

datatype unreachable_server = Http_status string nat | Request_error string string

record game_status =
  reachable_servers :: "string list"
  unreachable_servers :: "unreachable_server list"
  server_response_times :: "string \<rightharpoonup> real"
  game_error :: "string option"

definition game_servers :: "string list" where
  "game_servers = [''rf4game.com'', ''russianfishing4.com'']"

fun test_servers :: "(string \<Rightarrow> server_result) \<Rightarrow> game_status \<Rightarrow> string list \<Rightarrow> game_status" where
  "test_servers http results [] = results"
| "test_servers http results (server # servers) =
     (case http server of
        Http_response status_code response_time \<Rightarrow>
          (if status_code < 500
           then test_servers http
                  (results\<lparr> reachable_servers := reachable_servers results @ [server],
                            server_response_times :=
                              (server_response_times results)(server \<mapsto> response_time) \<rparr>)
                  servers
           else test_servers http
                  (results\<lparr> unreachable_servers :=
                              unreachable_servers results @ [Http_status server status_code] \<rparr>)
                  servers)
      | Request_exception req_error Socket_ok \<Rightarrow>
          test_servers http
            (results\<lparr> reachable_servers := reachable_servers results @ [server] \<rparr>) servers
      | Request_exception req_error _ \<Rightarrow>
          test_servers http
            (results\<lparr> unreachable_servers :=
                        unreachable_servers results @ [Request_error server req_error] \<rparr>)
            servers
      | Other_exception e \<Rightarrow>
          \<lparr> reachable_servers = [], unreachable_servers = [],
            server_response_times = Map.empty, game_error = Some e \<rparr>)"

definition test_game_servers :: "(string \<Rightarrow> server_result) \<Rightarrow> game_status" where
  "test_game_servers http =
     test_servers http
       \<lparr> reachable_servers = [], unreachable_servers = [],
         server_response_times = Map.empty, game_error = None \<rparr>
       game_servers"

record connection_results =
  internet :: internet_status
  game_servers_result :: game_status

definition assess_connection_quality :: "connection_results \<Rightarrow> quality" where
  "assess_connection_quality results =
     (if \<not> inet_connected (internet results) then no_connection
      else
        (let avg_response =
               (case inet_avg_response_time (internet results) of
                  Some a \<Rightarrow> a | None \<Rightarrow> 1000)
         in if avg_response < 50 then excellent
            else if avg_response < 100 then good
            else if avg_response < 200 then fair
            else if avg_response < 500 then poor
            else very_poor))"

record history_entry =
  entry_timestamp :: timestamp
  entry_connected :: bool
  entry_quality :: quality
  entry_response_time :: real

record status_info =
  info_connected :: bool
  info_quality :: quality
  info_last_check :: timestamp
  info_details :: connection_results

datatype connection_signal =
    connection_established connection_type
  | connection_lost lost_reason
  | connection_status_changed string status_info
  | status_callback nat bool status_info

record connection_monitor =
  is_monitoring :: bool
  check_interval :: int
  is_connected :: bool
  last_check_time :: timestamp
  connection_history :: "history_entry list"
  status_callbacks :: "nat list"

definition init_connection_monitor :: connection_monitor where
  "init_connection_monitor =
     \<lparr> is_monitoring = False, check_interval = 5000, is_connected = False,
       last_check_time = 0, connection_history = [], status_callbacks = [] \<rparr>"

text \<open>
  \<^verbatim>\<open>_handle_connection_change\<close>: the new state and the signals emitted, in order.
\<close>

definition handle_connection_change ::
  "connection_monitor \<Rightarrow> bool \<Rightarrow> connection_results \<Rightarrow>
   connection_monitor \<times> connection_signal list" where
  "handle_connection_change self conn results =
     (if conn \<and> \<not> is_connected self then
        (self\<lparr> is_connected := True \<rparr>,
         [connection_established
            (if reachable_servers (game_servers_result results) \<noteq> []
             then game_servers_type else internet_type)])
      else if \<not> conn \<and> is_connected self then
        (self\<lparr> is_connected := False \<rparr>,
         [connection_lost
            (if \<not> inet_connected (internet results) then internet_disconnected
             else if reachable_servers (game_servers_result results) = []
             then game_servers_unreachable
             else unknown_reason)])
      else (self, []))"

definition update_connection_history ::
  "connection_monitor \<Rightarrow> timestamp \<Rightarrow> connection_results \<Rightarrow> connection_monitor" where
  "update_connection_history self ts results =
     (let history_entry =
            \<lparr> entry_timestamp = ts,
              entry_connected = inet_connected (internet results),
              entry_quality = assess_connection_quality results,
              entry_response_time =
                (case inet_avg_response_time (internet results) of
                   Some a \<Rightarrow> a | None \<Rightarrow> 0) \<rparr>;
          history = connection_history self @ [history_entry]
      in self\<lparr> connection_history :=
                 (if length history > 100 then py_slice_from history (- 100) else history) \<rparr>)"

definition get_connection_history :: "connection_monitor \<Rightarrow> int \<Rightarrow> history_entry list" where
  "get_connection_history self limit =
     (if connection_history self \<noteq> [] then py_slice_from (connection_history self) (- limit)
      else [])"

text \<open>
  One tick, \<^verbatim>\<open>_check_connection\<close>.  The environment of the tick is the clock reading and
  the answers of the network to the probes.
\<close>

record tick_env =
  tick_now :: timestamp
  tick_probe :: "string \<times> nat \<Rightarrow> connect_result"
  tick_http :: "string \<Rightarrow> server_result"

definition check_results :: "tick_env \<Rightarrow> connection_results" where
  "check_results env =
     \<lparr> internet = test_internet_connectivity (tick_probe env),
       game_servers_result = test_game_servers (tick_http env) \<rparr>"

definition check_connection ::
  "connection_monitor \<Rightarrow> tick_env \<Rightarrow> connection_monitor \<times> connection_signal list" where
  "check_connection self env =
     (let current_time = tick_now env;
          connection_results = check_results env;
          overall_connected = inet_connected (internet connection_results);
          connection_quality = assess_connection_quality connection_results;
          (self1, signals) =
            (if overall_connected \<noteq> is_connected self
             then handle_connection_change self overall_connected connection_results
             else (self, []));
          self2 = update_connection_history self1 current_time connection_results;
          status_info =
            \<lparr> info_connected = overall_connected, info_quality = connection_quality,
              info_last_check = current_time, info_details = connection_results \<rparr>
      in (self2\<lparr> last_check_time := current_time \<rparr>,
          signals
          @ [connection_status_changed
               (if overall_connected then ''connected'' else ''disconnected'') status_info]
          @ map (\<lambda>callback. status_callback callback overall_connected status_info)
              (status_callbacks self2)))"

text \<open>A run of the monitor: one tick per environment, the signals of all ticks in order.\<close>

fun run_ticks ::
  "connection_monitor \<Rightarrow> tick_env list \<Rightarrow> connection_monitor \<times> connection_signal list" where
  "run_ticks self [] = (self, [])"
| "run_ticks self (env # envs) =
     (case check_connection self env of
        (self1, signals) \<Rightarrow>
          (case run_ticks self1 envs of (self2, later) \<Rightarrow> (self2, signals @ later)))"

text \<open>The sample a tick appends to the history.\<close>

definition sample_of :: "tick_env \<Rightarrow> history_entry" where
  "sample_of env =
     (let results = check_results env in
      \<lparr> entry_timestamp = tick_now env,
        entry_connected = inet_connected (internet results),
        entry_quality = assess_connection_quality results,
        entry_response_time =
          (case inet_avg_response_time (internet results) of Some a \<Rightarrow> a | None \<Rightarrow> 0) \<rparr>)"


text \<open>The measured times of the basic targets that answered, in the order probed.\<close>

definition latencies :: "(string \<times> nat \<Rightarrow> connect_result) \<Rightarrow> real list" where
  "latencies probe =
     concat (map (\<lambda>t. case probe t of Connect_ok l \<Rightarrow> [l] | _ \<Rightarrow> []) test_targets)"

text \<open>The tiers from best to worst, for comparing classifications.\<close>

fun quality_rank :: "quality \<Rightarrow> nat" where
  "quality_rank excellent = 5"
| "quality_rank good = 4"
| "quality_rank fair = 3"
| "quality_rank poor = 2"
| "quality_rank very_poor = 1"
| "quality_rank no_connection = 0"
| "quality_rank unknown_quality = 0"

section \<open>components/game\_monitor/process\_tracker.py\<close>

text \<open>
  \<^verbatim>\<open>str.lower()\<close> on the ASCII letters (process and target names are compared in lower
  case), and the substring test \<^verbatim>\<open>target.lower() in proc_name\<close>.
\<close>

definition lower_char :: "char \<Rightarrow> char" where
  "lower_char c =
     (let n = (of_char c :: nat) in if 65 \<le> n \<and> n \<le> 90 then char_of (n + 32) else c)"

definition lower :: "string \<Rightarrow> string" where
  "lower s = map lower_char s"

fun is_prefix :: "string \<Rightarrow> string \<Rightarrow> bool" where
  "is_prefix [] ys = True"
| "is_prefix (x # xs) [] = False"
| "is_prefix (x # xs) (y # ys) = (x = y \<and> is_prefix xs ys)"

fun contains :: "string \<Rightarrow> string \<Rightarrow> bool" where
  "contains needle [] = (needle = [])"
| "contains needle (c # cs) = (is_prefix needle (c # cs) \<or> contains needle cs)"

text \<open>
  One process of \<^verbatim>\<open>psutil.process_iter(['pid', 'name', 'exe', 'create_time'])\<close>: its pid
  and its name, which is \<^verbatim>\<open>None\<close> when the name could not be read.
\<close>

record scan_entry =
  se_pid :: int
  se_name :: "string option"

text \<open>The dictionary of \<^verbatim>\<open>_get_detailed_process_info\<close>, keys to rendered values.\<close>

type_synonym process_info = "string \<rightharpoonup> string"

datatype psutil_status = STATUS_RUNNING | STATUS_SLEEPING | STATUS_STOPPED | STATUS_OTHER

datatype psutil_error = NoSuchProcess | AccessDenied | Other_error

text \<open>
  What the operating system answers during one scan: the processes enumerated, the
  dictionary \<^verbatim>\<open>_get_detailed_process_info\<close> builds for a newly found process and for
  the refresh, and the answers of the handle of the current process to
  \<^verbatim>\<open>is_running()\<close> and \<^verbatim>\<open>status()\<close>.
\<close>

record scan_env =
  scan_processes_seen :: "scan_entry list"
  scan_found_info :: process_info
  scan_updated_info :: process_info
  scan_is_running :: bool
  scan_status :: "psutil_error + psutil_status"

text \<open>
  The signals are declared \<^verbatim>\<open>pyqtSignal(int, str)\<close> and \<^verbatim>\<open>pyqtSignal(int)\<close>: a PID is
  carried as a 32-bit C \<^verbatim>\<open>int\<close>, so a Python integer outside that range arrives wrapped,
  and a name that is \<^verbatim>\<open>None\<close> arrives as the empty string.
\<close>

definition c_int :: "int \<Rightarrow> int" where
  "c_int i = (i + 2147483648) mod 4294967296 - 2147483648"

datatype tracker_signal =
    process_found int string
  | process_lost int
  | status_changed string process_info
  | tracker_callback nat string process_info

record process_tracker =
  target_processes :: "string list"
  current_pid :: "int option"
  current_process :: "int option"
  process_info :: process_info
  scan_interval :: int
  tracker_monitoring :: bool
  tracker_callbacks :: "nat list"

definition init_process_tracker :: process_tracker where
  "init_process_tracker =
     \<lparr> target_processes =
         [''RussianFishing4.exe'', ''rf4.exe'', ''fishing4.exe'', ''russian_fishing_4.exe''],
       current_pid = None, current_process = None, process_info = Map.empty,
       scan_interval = 2000, tracker_monitoring = False, tracker_callbacks = [] \<rparr>"

definition handle_no_processes :: "process_tracker \<Rightarrow> process_tracker \<times> tracker_signal list" where
  "handle_no_processes self =
     (case current_pid self of
        Some lost_pid \<Rightarrow>
          (self\<lparr> current_pid := None, current_process := None, process_info := Map.empty \<rparr>,
           [process_lost (c_int lost_pid), status_changed ''not_running'' Map.empty])
      | None \<Rightarrow> (self, []))"

text \<open>
  \<^verbatim>\<open>_update_process_status\<close>: \<^verbatim>\<open>status()\<close> raising \<^verbatim>\<open>NoSuchProcess\<close> or
  \<^verbatim>\<open>AccessDenied\<close> is handled as a lost process, after the dictionary was refreshed;
  any other exception is logged.
\<close>

definition update_process_status ::
  "process_tracker \<Rightarrow> scan_env \<Rightarrow> process_tracker \<times> tracker_signal list" where
  "update_process_status self env =
     (if current_process self \<noteq> None \<and> scan_is_running env then
        (let self1 = self\<lparr> process_info := process_info self ++ scan_updated_info env \<rparr> in
         case scan_status env of
           Inl NoSuchProcess \<Rightarrow> handle_no_processes self1
         | Inl AccessDenied \<Rightarrow> handle_no_processes self1
         | Inl Other_error \<Rightarrow> (self1, [])
         | Inr status \<Rightarrow>
             (let status_str =
                    (if status = STATUS_RUNNING then ''running''
                     else if status = STATUS_SLEEPING then ''idle''
                     else if status = STATUS_STOPPED then ''stopped''
                     else ''unknown'')
              in (self1,
                  status_changed status_str (process_info self1)
                  # map (\<lambda>callback. tracker_callback callback status_str (process_info self1))
                      (tracker_callbacks self1))))
      else (self, []))"

text \<open>
  \<^verbatim>\<open>_handle_found_processes\<close>, called with a non-empty list; the first entry is the
  canonical process.  \<^verbatim>\<open>proc_info.get('name', 'Unknown')\<close> is the name of the entry, the
  key being always present; a name that is \<^verbatim>\<open>None\<close> is emitted as the empty string.
\<close>

fun handle_found_processes ::
  "process_tracker \<Rightarrow> scan_entry list \<Rightarrow> scan_env \<Rightarrow> process_tracker \<times> tracker_signal list" where
  "handle_found_processes self [] env = (self, [])"
| "handle_found_processes self (proc # others) env =
     (let new_pid = se_pid proc in
      if current_pid self \<noteq> Some new_pid then
        (let lost = (case current_pid self of
                       Some old \<Rightarrow> [process_lost (c_int old)] | None \<Rightarrow> []);
             self1 = self\<lparr> current_pid := Some new_pid, current_process := Some new_pid,
                         process_info := scan_found_info env \<rparr>;
             name = (case se_name proc of Some name \<Rightarrow> name | None \<Rightarrow> [])
         in case update_process_status self1 env of
              (self2, signals) \<Rightarrow>
                (self2, lost @ [process_found (c_int new_pid) name] @ signals))
      else update_process_status self env)"

definition is_target :: "string list \<Rightarrow> scan_entry \<Rightarrow> bool" where
  "is_target targets proc =
     (case se_name proc of
        None \<Rightarrow> False
      | Some name \<Rightarrow> list_ex (\<lambda>target. contains (lower target) (lower name)) targets)"

text \<open>
  \<^verbatim>\<open>_scan_processes\<close>.  A process whose name is \<^verbatim>\<open>None\<close> makes \<^verbatim>\<open>.lower()\<close> raise
  inside the enumeration; only the two psutil errors are skipped there, so the scan ends
  in the outer handler and the tick changes nothing.
\<close>

definition scan_processes ::
  "process_tracker \<Rightarrow> scan_env \<Rightarrow> process_tracker \<times> tracker_signal list" where
  "scan_processes self env =
     (if list_ex (\<lambda>proc. se_name proc = None) (scan_processes_seen env) then (self, [])
      else
        (let found_processes = filter (is_target (target_processes self)) (scan_processes_seen env)
         in if found_processes \<noteq> [] then handle_found_processes self found_processes env
            else handle_no_processes self))"

fun is_found_or_lost :: "tracker_signal \<Rightarrow> bool" where
  "is_found_or_lost (process_found pid name) = True"
| "is_found_or_lost (process_lost pid) = True"
| "is_found_or_lost (status_changed status info) = False"
| "is_found_or_lost (tracker_callback callback status info) = False"

section \<open>components/game\_monitor/game\_monitor.py\<close>

datatype overall_status =
  running_connected | running_disconnected | not_running_connected | not_running_disconnected

text \<open>
  The status dictionary of \<^verbatim>\<open>_update_status\<close>.  The two sub-dictionaries are what
  \<^verbatim>\<open>get_current_status()\<close> and \<^verbatim>\<open>get_connection_status()\<close> return at that moment.
\<close>

record ('p, 'c) game_status_info =
  gs_overall_status :: overall_status
  gs_timestamp :: timestamp
  gs_game_running :: bool
  gs_connection_active :: bool
  gs_process_info :: 'p
  gs_connection_info :: 'c

datatype ('p, 'c) game_signal =
  game_status_changed overall_status "('p, 'c) game_status_info"

record ('p, 'c) game_monitor =
  game_running :: bool
  connection_active :: bool
  last_status_update :: timestamp
  alerts_enabled :: bool
  alert_callbacks :: "nat list"
  log_data :: bool
  status_history :: "('p, 'c) game_status_info list"

definition log_status_data ::
  "('p, 'c) game_monitor \<Rightarrow> ('p, 'c) game_status_info \<Rightarrow> ('p, 'c) game_monitor" where
  "log_status_data self status_info =
     (let history = status_history self @ [status_info]
      in self\<lparr> status_history :=
                 (if length history > 1000 then py_slice_from history (- 1000) else history) \<rparr>)"

definition update_status ::
  "('p, 'c) game_monitor \<Rightarrow> timestamp \<Rightarrow> 'p \<Rightarrow> 'c \<Rightarrow>
   ('p, 'c) game_monitor \<times> ('p, 'c) game_signal list" where
  "update_status self current_time process_status connection_status =
     (let overall_status =
            (if game_running self \<and> connection_active self then running_connected
             else if game_running self \<and> \<not> connection_active self then running_disconnected
             else if \<not> game_running self \<and> connection_active self then not_running_connected
             else not_running_disconnected);
          status_info =
            \<lparr> gs_overall_status = overall_status, gs_timestamp = current_time,
              gs_game_running = game_running self,
              gs_connection_active = connection_active self,
              gs_process_info = process_status, gs_connection_info = connection_status \<rparr>;
          self1 = (if log_data self then log_status_data self status_info else self)
      in (self1\<lparr> last_status_update := current_time \<rparr>,
          [game_status_changed overall_status status_info]))"

definition get_status_history ::
  "('p, 'c) game_monitor \<Rightarrow> int \<Rightarrow> ('p, 'c) game_status_info list" where
  "get_status_history self limit =
     (if status_history self \<noteq> [] then py_slice_from (status_history self) (- limit) else [])"

section \<open>core/event\_manager.py\<close>

text \<open>
  The \<^verbatim>\<open>Event\<close> dataclass.  The identifier \<^verbatim>\<open>f"{event_name}_{timestamp}"\<close> is kept as
  the pair it is formatted from; its timestamp is a second reading of the clock.
\<close>

record 'd event =
  ev_name :: string
  ev_data :: 'd
  ev_timestamp :: timestamp
  ev_source :: "string option"
  ev_event_id :: "string \<times> timestamp"

text \<open>A subscriber entry \<^verbatim>\<open>{"callback": callback, "priority": priority}\<close>; a callback is
  identified by a number.\<close>

record callback_info =
  callback :: nat
  priority :: int

record 'd event_manager =
  subscribers :: "string \<rightharpoonup> callback_info list"
  event_history :: "'d event list"




definition unsubscribe :: "'d event_manager \<Rightarrow> string \<Rightarrow> nat \<Rightarrow> 'd event_manager" where
  "unsubscribe self event_name cb =
     (case subscribers self event_name of
        None \<Rightarrow> self
      | Some subs \<Rightarrow>
          (let remaining = filter (\<lambda>cb_info. callback cb_info \<noteq> cb) subs
           in if remaining = []
              then self\<lparr> subscribers := (subscribers self)(event_name := None) \<rparr>
              else self\<lparr> subscribers := (subscribers self)(event_name \<mapsto> remaining) \<rparr>))"





text \<open>\<^verbatim>\<open>get_event_history\<close>; an empty \<^verbatim>\<open>event_name\<close> is falsy, as \<^verbatim>\<open>None\<close> is.\<close>

definition get_event_history ::
  "'d event_manager \<Rightarrow> string option \<Rightarrow> int \<Rightarrow> 'd event list" where
  "get_event_history self event_name limit =
     (if event_name \<noteq> None \<and> event_name \<noteq> Some []
      then py_slice_from (filter (\<lambda>event. Some (ev_name event) = event_name) (event_history self))
             (- limit)
      else py_slice_from (event_history self) (- limit))"

section \<open>core/service\_registry.py\<close>

text \<open>
  Service classes and factories are callables, identified by a number.  Calling one
  either raises or returns a new object; an object is identified by the callable that
  made it and the number of calls made before it, so two calls never return the same
  object.  The registry state carries the log of the calls made.
\<close>

datatype service_object = Instance nat nat

datatype service_error = ServiceException string string

record service_registry =
  services :: "string \<rightharpoonup> nat"
  factories :: "string \<rightharpoonup> nat"
  singletons :: "string \<rightharpoonup> service_object option"
  dependencies :: "string \<rightharpoonup> string list"
  calls :: "nat list"

definition init_service_registry :: service_registry where
  "init_service_registry =
     \<lparr> services = Map.empty, factories = Map.empty, singletons = Map.empty,
       dependencies = Map.empty, calls = [] \<rparr>"

definition register_service :: "service_registry \<Rightarrow> string \<Rightarrow> nat \<Rightarrow> bool \<Rightarrow> service_registry" where
  "register_service self name service_class singleton =
     (let self1 = (if singleton then self\<lparr> singletons := (singletons self)(name \<mapsto> None) \<rparr>
                   else self)
      in self1\<lparr> services := (services self1)(name \<mapsto> service_class) \<rparr>)"

definition register_factory :: "service_registry \<Rightarrow> string \<Rightarrow> nat \<Rightarrow> service_registry" where
  "register_factory self name factory = self\<lparr> factories := (factories self)(name \<mapsto> factory) \<rparr>"

definition register_instance ::
  "service_registry \<Rightarrow> string \<Rightarrow> service_object option \<Rightarrow> service_registry" where
  "register_instance self name inst = self\<lparr> singletons := (singletons self)(name \<mapsto> inst) \<rparr>"

text \<open>A call \<^verbatim>\<open>f()\<close> of a class or factory inside \<^verbatim>\<open>get_service\<close>; an exception of the
  callable is wrapped into a \<^verbatim>\<open>ServiceException\<close>.\<close>

definition call :: "(nat \<Rightarrow> bool) \<Rightarrow> service_registry \<Rightarrow> string \<Rightarrow> nat \<Rightarrow>
    service_registry \<times> (service_error + service_object)" where
  "call raises self name f =
     (if raises f
      then (self\<lparr> calls := calls self @ [f] \<rparr>,
            Inl (ServiceException name ''Failed to get service''))
      else (self\<lparr> calls := calls self @ [f] \<rparr>, Inr (Instance f (length (calls self)))))"

definition get_service :: "(nat \<Rightarrow> bool) \<Rightarrow> service_registry \<Rightarrow> string \<Rightarrow>
    service_registry \<times> (service_error + service_object option)" where
  "get_service raises self name =
     (case singletons self name of
        Some (Some inst) \<Rightarrow> (self, Inr (Some inst))
      | Some None \<Rightarrow>
          (case (case services self name of
                   Some service_class \<Rightarrow> Some service_class
                 | None \<Rightarrow> factories self name) of
             Some f \<Rightarrow>
               (case call raises self name f of
                  (self1, Inl e) \<Rightarrow> (self1, Inl e)
                | (self1, Inr inst) \<Rightarrow>
                    (self1\<lparr> singletons := (singletons self1)(name \<mapsto> Some inst) \<rparr>,
                     Inr (Some inst)))
           | None \<Rightarrow> (self, Inl (ServiceException name ''Service not registered'')))
      | None \<Rightarrow>
          (case services self name of
             Some service_class \<Rightarrow>
               (case call raises self name service_class of
                  (self1, Inl e) \<Rightarrow> (self1, Inl e)
                | (self1, Inr inst) \<Rightarrow> (self1, Inr (Some inst)))
           | None \<Rightarrow>
               (case factories self name of
                  Some factory \<Rightarrow>
                    (case call raises self name factory of
                       (self1, Inl e) \<Rightarrow> (self1, Inl e)
                     | (self1, Inr inst) \<Rightarrow> (self1, Inr (Some inst)))
                | None \<Rightarrow> (self, Inl (ServiceException name ''Service not found'')))))"

text \<open>\<open>n\<close> calls of \<^verbatim>\<open>get_service(name)\<close> in a row: the final state and the results in
  order.\<close>

fun get_service_times :: "(nat \<Rightarrow> bool) \<Rightarrow> service_registry \<Rightarrow> string \<Rightarrow> nat \<Rightarrow>
    service_registry \<times> (service_error + service_object option) list" where
  "get_service_times raises self name 0 = (self, [])"
| "get_service_times raises self name (Suc n) =
     (case get_service raises self name of
        (self1, r) \<Rightarrow>
          (case get_service_times raises self1 name n of (self2, rs) \<Rightarrow> (self2, r # rs)))"

section \<open>core/bridge/configuration\_bridge.py\<close>

text \<open>
  Configuration values: what \<^verbatim>\<open>yaml.safe_load\<close> and \<^verbatim>\<open>json.load\<close> return.  A dictionary
  is a map from its keys, so that equality is Python's \<^verbatim>\<open>==\<close> on dictionaries.
\<close>

datatype pyval =
    PNone
  | PBool bool
  | PInt int
  | PFloat real
  | PStr string
  | PList "pyval list"
  | PDict "string \<Rightarrow> pyval option"




text \<open>
  \<^verbatim>\<open>Path.suffix\<close> and \<^verbatim>\<open>Path.stem\<close> of a file in the configuration directory: the
  last component of the path is split at its last dot, unless that dot is its first or
  its last character.
\<close>

definition path_name :: "string \<Rightarrow> string" where
  "path_name p = rev (takeWhile (\<lambda>c. c \<noteq> CHR ''/'') (rev p))"

definition last_dot :: "string \<Rightarrow> nat option" where
  "last_dot n =
     (let after = length (takeWhile (\<lambda>c. c \<noteq> CHR ''.'') (rev n))
      in if after = length n then None else Some (length n - after - 1))"

definition path_suffix :: "string \<Rightarrow> string" where
  "path_suffix p =
     (let n = path_name p in
      case last_dot n of
        None \<Rightarrow> []
      | Some i \<Rightarrow> if 0 < i \<and> i < length n - 1 then drop i n else [])"

definition path_stem :: "string \<Rightarrow> string" where
  "path_stem p =
     (let n = path_name p in
      case last_dot n of
        None \<Rightarrow> n
      | Some i \<Rightarrow> if 0 < i \<and> i < length n - 1 then take i n else n)"

datatype config_format = Yaml | Json | Ini

definition format_of :: "string \<Rightarrow> config_format option" where
  "format_of extension =
     (if extension \<in> set [''.yaml'', ''.yml''] then Some Yaml
      else if extension = ''.json'' then Some Json
      else if extension \<in> set [''.ini'', ''.cfg''] then Some Ini
      else None)"

text \<open>
  The serialisers are libraries outside the repository (\<^verbatim>\<open>yaml\<close>, \<^verbatim>\<open>json\<close>,
  \<^verbatim>\<open>configparser\<close>); the bridge is modelled over them.  Writing a dictionary in a format
  gives the text of the file (\<open>Inr\<close>), or raises after some text was written (\<open>Inl\<close>);
  parsing a text gives a value, or raises (\<open>None\<close>).
\<close>

text \<open>
  For the INI formats the library gives the section names of the text and, for each
  section, its options as strings (\<open>parse_ini\<close>); the bridge builds the result from them,
  \<^verbatim>\<open>{section: dict(config[section]) for section in config.sections()}\<close>.
\<close>

type_synonym ini_sections = "(string \<times> (string \<times> string) list) list"

record codec =
  dump :: "config_format \<Rightarrow> (string \<Rightarrow> pyval option) \<Rightarrow> string + string"
  parse :: "config_format \<Rightarrow> string \<Rightarrow> pyval option"
  parse_ini :: "string \<Rightarrow> ini_sections option"



text \<open>
  The bridge with the part of the file system it works on: the files of the
  configuration directory and of the backup directory by name, whether a file can be
  opened for writing, whether directories can be created and whether a copy into the
  backup directory succeeds.  A watcher is identified by a number; the calls it received
  are logged with their arguments.
\<close>

record config_bridge =
  files :: "string \<rightharpoonup> string"
  backups :: "string \<rightharpoonup> string"
  writable :: "string \<Rightarrow> bool"
  mkdir_ok :: bool
  backup_ok :: bool
  config_cache :: "string \<rightharpoonup> pyval"
  change_callbacks :: "string \<rightharpoonup> nat"
  notified :: "(nat \<times> string \<times> (string \<Rightarrow> pyval option)) list"

definition extensions :: "string list" where
  "extensions = [''.yaml'', ''.yml'', ''.json'', ''.ini'', ''.cfg'']"

definition find_config_file :: "config_bridge \<Rightarrow> string \<Rightarrow> string option" where
  "find_config_file self config_name =
     (case filter (\<lambda>ext. files self (config_name @ ext) \<noteq> None) extensions of
        [] \<Rightarrow> None
      | ext # others \<Rightarrow> Some (config_name @ ext))"

definition create_config_file :: "config_bridge \<Rightarrow> string \<Rightarrow> string option" where
  "create_config_file self config_name =
     (if mkdir_ok self then Some (config_name @ ''.yaml'') else None)"


text \<open>
  \<^verbatim>\<open>_write_config_file\<close>: opening the file for writing empties it before anything is
  serialised, so a failure after that leaves the text written so far.
\<close>

definition write_config_file ::
  "codec \<Rightarrow> config_bridge \<Rightarrow> string \<Rightarrow> (string \<Rightarrow> pyval option) \<Rightarrow> config_bridge \<times> bool" where
  "write_config_file c self config_file config_data =
     (if \<not> writable self config_file then (self, False)
      else
        (case format_of (lower (path_suffix config_file)) of
           None \<Rightarrow> (self\<lparr> files := (files self)(config_file \<mapsto> []) \<rparr>, False)
         | Some fmt \<Rightarrow>
             (case dump c fmt config_data of
                Inl partial \<Rightarrow> (self\<lparr> files := (files self)(config_file \<mapsto> partial) \<rparr>, False)
              | Inr text \<Rightarrow> (self\<lparr> files := (files self)(config_file \<mapsto> text) \<rparr>, True))))"

text \<open>
  \<^verbatim>\<open>_create_backup\<close>, with the formatted clock reading: the copy is named
  \<^verbatim>\<open>{stem}_{timestamp}{suffix}\<close>; an exception of the copy is logged and becomes the
  result \<^verbatim>\<open>False\<close>.
\<close>

definition create_backup :: "config_bridge \<Rightarrow> string \<Rightarrow> string \<Rightarrow> config_bridge \<times> bool" where
  "create_backup self config_file stamp =
     (let backup_name = path_stem config_file @ ''_'' @ stamp @ path_suffix config_file
      in case files self config_file of
           None \<Rightarrow> (self, False)
         | Some text \<Rightarrow>
             if backup_ok self
             then (self\<lparr> backups := (backups self)(backup_name \<mapsto> text) \<rparr>, True)
             else (self, False))"

definition notify_config_change ::
  "config_bridge \<Rightarrow> string \<Rightarrow> (string \<Rightarrow> pyval option) \<Rightarrow> config_bridge" where
  "notify_config_change self config_name config_data =
     (case change_callbacks self config_name of
        None \<Rightarrow> self
      | Some cb \<Rightarrow> self\<lparr> notified := notified self @ [(cb, config_name, config_data)] \<rparr>)"

definition write_config ::
  "codec \<Rightarrow> config_bridge \<Rightarrow> string \<Rightarrow> string \<Rightarrow> (string \<Rightarrow> pyval option) \<Rightarrow> bool \<Rightarrow>
   config_bridge \<times> bool" where
  "write_config c self stamp config_name config_data with_backup =
     (case (case find_config_file self config_name of
              Some config_file \<Rightarrow> Some config_file
            | None \<Rightarrow> create_config_file self config_name) of
        None \<Rightarrow> (self, False)
      | Some config_file \<Rightarrow>
          (let self1 = (if with_backup \<and> files self config_file \<noteq> None
                        then fst (create_backup self config_file stamp) else self)
           in case write_config_file c self1 config_file config_data of
                (self2, success) \<Rightarrow>
                  if success
                  then (notify_config_change
                          (self2\<lparr> config_cache := (config_cache self2)(config_name \<mapsto> PDict config_data) \<rparr>)
                          config_name config_data,
                        True)
                  else (self2, False)))"


text \<open>
  A bridge and a serialiser to run the bridge on: a configuration directory that holds
  \<^verbatim>\<open>config.yaml\<close>, a backup directory into which no copy succeeds, one watcher on
  \<^verbatim>\<open>config\<close>, and a serialiser that writes \<^verbatim>\<open>x: 1\<close> and reads it back as
  \<^verbatim>\<open>{"x": 1}\<close>.
\<close>

definition sample_codec :: codec where
  "sample_codec =
     \<lparr> dump = (\<lambda>fmt d. Inr ''x: 1''),
       parse = (\<lambda>fmt text. if text = ''x: 1'' then Some (PDict [''x'' \<mapsto> PInt 1]) else None),
       parse_ini = (\<lambda>text. None) \<rparr>"

definition sample_bridge :: config_bridge where
  "sample_bridge =
     \<lparr> files = [''config.yaml'' \<mapsto> ''x: 0''], backups = Map.empty,
       writable = (\<lambda>f. True), mkdir_ok = True, backup_ok = False,
       config_cache = Map.empty, change_callbacks = [''config'' \<mapsto> 1], notified = [] \<rparr>"



section \<open>Properties\<close>

lemma py_slice_from_zero: "py_slice_from xs 0 = xs"
  by (simp add: py_slice_from_def)


lemma foldl_test_target:
  "foldl (test_target probe) (n, ts, fs) targets =
     (n + length (filter (\<lambda>t. \<exists>l. probe t = Connect_ok l) targets),
      ts @ concat (map (\<lambda>t. case probe t of Connect_ok l \<Rightarrow> [l] | _ \<Rightarrow> []) targets),
      fs @ concat (map (\<lambda>t. case probe t of Connect_ok l \<Rightarrow> []
                               | Connect_failed \<Rightarrow> [Failed (fst t) (snd t)]
                               | Connect_raised e \<Rightarrow> [Failed_error (fst t) (snd t) e]) targets))"
proof (induction targets arbitrary: n ts fs)
  case Nil
  then show ?case by simp
next
  case (Cons t targets)
  obtain host port where t: "t = (host, port)" by (cases t)
  show ?case
    by (cases "probe (host, port)") (simp_all add: t Cons.IH)
qed

lemma inet_connected_iff:
  "inet_connected (test_internet_connectivity probe) \<longleftrightarrow>
     (\<exists>t \<in> set test_targets. \<exists>l. probe t = Connect_ok l)"
  by (auto simp add: test_internet_connectivity_def foldl_test_target filter_empty_conv
       simp del: test_target.simps)

lemma inet_response_times_eq:
  "inet_response_times (test_internet_connectivity probe) = latencies probe"
  by (simp add: test_internet_connectivity_def foldl_test_target latencies_def)

lemma latencies_empty_iff:
  "latencies probe = [] \<longleftrightarrow> \<not> (\<exists>t \<in> set test_targets. \<exists>l. probe t = Connect_ok l)"
  by (auto simp add: latencies_def split: connect_result.splits)

lemma inet_avg_eq:
  "inet_avg_response_time (test_internet_connectivity probe) =
     (if latencies probe \<noteq> [] then Some (sum_list (latencies probe) / real (length (latencies probe))) else None)"
  by (simp add: test_internet_connectivity_def foldl_test_target latencies_def)

lemma py_slice_last:
  "0 < n \<Longrightarrow> py_slice_from xs (- int n) = drop (length xs - n) xs"
proof -
  assume "0 < n"
  have "nat (int (length xs) + - int n) = length xs - n" by linarith
  with \<open>0 < n\<close> show ?thesis by (simp add: py_slice_from_def)
qed

lemma py_slice_100: "py_slice_from xs (- 100) = drop (length xs - 100) xs"
  using py_slice_last [of 100 xs] by simp

lemma update_history_eq:
  "connection_history (update_connection_history self ts results) =
     drop (length (connection_history self) + 1 - 100)
       (connection_history self @ [\<lparr> entry_timestamp = ts,
              entry_connected = inet_connected (internet results),
              entry_quality = assess_connection_quality results,
              entry_response_time =
                (case inet_avg_response_time (internet results) of
                   Some a \<Rightarrow> a | None \<Rightarrow> 0) \<rparr>])"
  unfolding update_connection_history_def Let_def py_slice_100
  by simp

lemma last_n_rev: "last_n n xs = rev (take n (rev xs))"
  by (simp add: last_n_def take_rev)

lemma last_n_append: "last_n n (last_n n xs @ ys) = last_n n (xs @ ys)"
  by (simp add: last_n_rev)

lemma check_connection_history:
  "connection_history (fst (check_connection self env)) =
     last_n 100 (connection_history self @ [sample_of env])"
  by (simp add: check_connection_def Let_def split_def update_history_eq sample_of_def
      handle_connection_change_def last_n_def)

lemma run_ticks_history:
  "envs \<noteq> [] \<Longrightarrow> connection_history (fst (run_ticks self envs)) =
     last_n 100 (connection_history self @ map sample_of envs)"
proof (induction envs arbitrary: self)
  case Nil
  then show ?case by simp
next
  case (Cons env envs)
  show ?case
  proof (cases "envs = []")
    case True
    then show ?thesis by (simp add: split_def check_connection_history)
  next
    case False
    then show ?thesis
      using Cons.IH [of "fst (check_connection self env)"]
        last_n_append [of 100 "connection_history self @ [sample_of env]" "map sample_of envs"]
      by (simp add: split_def check_connection_history)
  qed
qed





lemma assess_connected:
  "inet_connected (internet r) \<Longrightarrow> inet_avg_response_time (internet r) = Some a \<Longrightarrow>
     assess_connection_quality r =
       (if a < 50 then excellent else if a < 100 then good
        else if a < 200 then fair else if a < 500 then poor else very_poor)"
  by (simp add: assess_connection_quality_def)

lemma band_mono:
  fixes a b :: real
  assumes "a \<le> b"
  shows "quality_rank (if b < 50 then excellent else if b < 100 then good
        else if b < 200 then fair else if b < 500 then poor else very_poor)
     \<le> quality_rank (if a < 50 then excellent else if a < 100 then good
        else if a < 200 then fair else if a < 500 then poor else very_poor)"
  using assms by auto

text \<open>
  Claim C4.  The quality of a check is decided by the reachability and the average
  latency of that check alone: when no basic target answered it is \<open>no_connection\<close>;
  otherwise the average of the measured times of the targets that answered is classified
  as \<open>excellent\<close> below 50 ms, \<open>good\<close> below 100, \<open>fair\<close> below 200, \<open>poor\<close> below
  500 and \<open>very_poor\<close> from 500 on; a larger average never gives a better tier; and
  the averages 30, 80, 150, 300 and 600 give the five tiers in that order.
\<close>

theorem assess_connection_quality_bands:
  fixes env env' :: tick_env
  defines "r \<equiv> check_results env" and "r' \<equiv> check_results env'"
  shows "((\<forall>t \<in> set test_targets. \<forall>l. tick_probe env t \<noteq> Connect_ok l) \<longrightarrow>
            assess_connection_quality r = no_connection)
       \<and> ((\<exists>t \<in> set test_targets. \<exists>l. tick_probe env t = Connect_ok l) \<longrightarrow>
            (\<exists>avg. inet_avg_response_time (internet r) = Some avg
               \<and> avg = sum_list (latencies (tick_probe env)) / real (length (latencies (tick_probe env)))
               \<and> assess_connection_quality r =
                   (if avg < 50 then excellent else if avg < 100 then good
                    else if avg < 200 then fair else if avg < 500 then poor else very_poor)))
       \<and> (inet_connected (internet r) \<and> inet_connected (internet r') \<and>
            inet_avg_response_time (internet r) = Some a \<and>
            inet_avg_response_time (internet r') = Some b \<and> a \<le> b \<longrightarrow>
            quality_rank (assess_connection_quality r') \<le> quality_rank (assess_connection_quality r))
       \<and> (inet_connected (internet q) \<longrightarrow>
            (inet_avg_response_time (internet q) = Some 30 \<longrightarrow>
               assess_connection_quality q = excellent)
          \<and> (inet_avg_response_time (internet q) = Some 80 \<longrightarrow>
               assess_connection_quality q = good)
          \<and> (inet_avg_response_time (internet q) = Some 150 \<longrightarrow>
               assess_connection_quality q = fair)
          \<and> (inet_avg_response_time (internet q) = Some 300 \<longrightarrow>
               assess_connection_quality q = poor)
          \<and> (inet_avg_response_time (internet q) = Some 600 \<longrightarrow>
               assess_connection_quality q = very_poor))"
proof (intro conjI impI)
  assume "inet_connected (internet q)" "inet_avg_response_time (internet q) = Some 30"
  then show "assess_connection_quality q = excellent" by (simp add: assess_connected)
next
  assume "inet_connected (internet q)" "inet_avg_response_time (internet q) = Some 80"
  then show "assess_connection_quality q = good" by (simp add: assess_connected)
next
  assume "inet_connected (internet q)" "inet_avg_response_time (internet q) = Some 150"
  then show "assess_connection_quality q = fair" by (simp add: assess_connected)
next
  assume "inet_connected (internet q)" "inet_avg_response_time (internet q) = Some 300"
  then show "assess_connection_quality q = poor" by (simp add: assess_connected)
next
  assume "inet_connected (internet q)" "inet_avg_response_time (internet q) = Some 600"
  then show "assess_connection_quality q = very_poor" by (simp add: assess_connected)
next
  assume "\<forall>t \<in> set test_targets. \<forall>l. tick_probe env t \<noteq> Connect_ok l"
  then have "\<not> inet_connected (internet r)"
    by (simp add: r_def check_results_def inet_connected_iff)
  then show "assess_connection_quality r = no_connection"
    by (simp add: assess_connection_quality_def)
next
  assume ok: "\<exists>t \<in> set test_targets. \<exists>l. tick_probe env t = Connect_ok l"
  then have c: "inet_connected (internet r)"
    by (simp add: r_def check_results_def inet_connected_iff)
  from ok have ne: "latencies (tick_probe env) \<noteq> []"
    by (simp add: latencies_empty_iff)
  then have avg: "inet_avg_response_time (internet r) =
      Some (sum_list (latencies (tick_probe env)) / real (length (latencies (tick_probe env))))"
    by (simp add: r_def check_results_def inet_avg_eq)
  show "\<exists>avg. inet_avg_response_time (internet r) = Some avg
               \<and> avg = sum_list (latencies (tick_probe env)) / real (length (latencies (tick_probe env)))
               \<and> assess_connection_quality r =
                   (if avg < 50 then excellent else if avg < 100 then good
                    else if avg < 200 then fair else if avg < 500 then poor else very_poor)"
    using assess_connected [OF c avg] avg by blast
next
  assume h: "inet_connected (internet r) \<and> inet_connected (internet r') \<and>
            inet_avg_response_time (internet r) = Some a \<and>
            inet_avg_response_time (internet r') = Some b \<and> a \<le> b"
  then have "assess_connection_quality r = (if a < 50 then excellent else if a < 100 then good
        else if a < 200 then fair else if a < 500 then poor else very_poor)"
    and "assess_connection_quality r' = (if b < 50 then excellent else if b < 100 then good
        else if b < 200 then fair else if b < 500 then poor else very_poor)"
    by (simp_all add: assess_connected)
  with h band_mono [of a b]
  show "quality_rank (assess_connection_quality r') \<le> quality_rank (assess_connection_quality r)"
    by simp
qed


lemma handle_lost:
  assumes "is_connected self" and "\<not> conn"
  shows "handle_connection_change self conn results =
     (self\<lparr> is_connected := False \<rparr>,
      [connection_lost
         (if \<not> inet_connected (internet results) then internet_disconnected
          else if reachable_servers (game_servers_result results) = []
          then game_servers_unreachable else unknown_reason)])"
  using assms by (simp add: handle_connection_change_def)

lemma length_last_n: "length (last_n n xs) = min n (length xs)"
  by (simp add: last_n_def)

lemma last_n_append_long: "n \<le> length ys \<Longrightarrow> last_n n (xs @ ys) = last_n n ys"
  by (simp add: last_n_def)

lemma py_slice_all:
  "int (length xs) \<le> limit \<Longrightarrow> py_slice_from xs (- limit) = xs"
  by (simp add: py_slice_from_def)

text \<open>
  Claim C8.  The history of the connection monitor holds at most 100 entries after every
  tick; after any run of ticks from the initial monitor it is the samples of the last
  100 ticks in the order of the ticks; and after more than 100 ticks, from any state, a
  query with a limit of at least 100 returns exactly the samples of the 100 most recent
  ticks, the older ones being gone.
\<close>

theorem connection_history_fifo:
  "length (connection_history (fst (check_connection self env))) \<le> 100
   \<and> connection_history (fst (run_ticks init_connection_monitor envs)) =
       last_n 100 (map sample_of envs)
   \<and> (100 < length envs \<and> 100 \<le> limit \<longrightarrow>
        get_connection_history (fst (run_ticks self envs)) limit =
          drop (length envs - 100) (map sample_of envs)
        \<and> length (get_connection_history (fst (run_ticks self envs)) limit) = 100)"
proof (intro conjI impI)
  show "length (connection_history (fst (check_connection self env))) \<le> 100"
    by (simp add: check_connection_history length_last_n)
next
  show "connection_history (fst (run_ticks init_connection_monitor envs)) =
       last_n 100 (map sample_of envs)"
  proof (cases "envs = []")
    case True
    then show ?thesis by (simp add: init_connection_monitor_def last_n_def)
  next
    case False
    then show ?thesis
      using run_ticks_history [of envs init_connection_monitor]
      by (simp add: init_connection_monitor_def)
  qed
next
  assume h: "100 < length envs \<and> 100 \<le> limit"
  then have ne: "envs \<noteq> []" by auto
  from h have hist: "connection_history (fst (run_ticks self envs)) =
      drop (length envs - 100) (map sample_of envs)"
    using run_ticks_history [OF ne, of self]
      last_n_append_long [of 100 "map sample_of envs" "connection_history self"]
    by (simp add: last_n_def)
  from h have len: "length (drop (length envs - 100) (map sample_of envs)) = 100"
    by simp
  from h len show g: "get_connection_history (fst (run_ticks self envs)) limit =
          drop (length envs - 100) (map sample_of envs)"
    unfolding get_connection_history_def hist
    using py_slice_all [of "drop (length envs - 100) (map sample_of envs)" limit]
    by auto
  show "length (get_connection_history (fst (run_ticks self envs)) limit) = 100"
    unfolding g using len .
qed


text \<open>
  The three kinds of check at concrete answers of the network: nothing answers, every
  target answers in 30 ms, every target answers in 600 ms.
\<close>

theorem assess_connection_quality_bands_witness:
  "assess_connection_quality
     (check_results \<lparr> tick_now = 0, tick_probe = (\<lambda>t. Connect_failed),
                      tick_http = (\<lambda>s. Http_response 200 20) \<rparr>) = no_connection
   \<and> assess_connection_quality
     (check_results \<lparr> tick_now = 0, tick_probe = (\<lambda>t. Connect_ok 30),
                      tick_http = (\<lambda>s. Http_response 200 20) \<rparr>) = excellent
   \<and> assess_connection_quality
     (check_results \<lparr> tick_now = 0, tick_probe = (\<lambda>t. Connect_ok 600),
                      tick_http = (\<lambda>s. Http_response 200 20) \<rparr>) = very_poor"
proof -
  let ?down = "\<lparr> tick_now = 0, tick_probe = (\<lambda>t. Connect_failed),
                 tick_http = (\<lambda>s. Http_response 200 20) \<rparr>"
  let ?fast = "\<lparr> tick_now = 0, tick_probe = (\<lambda>t. Connect_ok 30),
                 tick_http = (\<lambda>s. Http_response 200 20) \<rparr>"
  let ?slow = "\<lparr> tick_now = 0, tick_probe = (\<lambda>t. Connect_ok 600),
                 tick_http = (\<lambda>s. Http_response 200 20) \<rparr>"
  have d: "\<forall>t \<in> set test_targets. \<forall>l. tick_probe ?down t \<noteq> Connect_ok l" by simp
  have f: "\<exists>t \<in> set test_targets. \<exists>l. tick_probe ?fast t = Connect_ok l"
    by (auto simp add: test_targets_def)
  have s: "\<exists>t \<in> set test_targets. \<exists>l. tick_probe ?slow t = Connect_ok l"
    by (auto simp add: test_targets_def)
  have lf: "latencies (tick_probe ?fast) = [30, 30, 30]"
    by (simp add: latencies_def test_targets_def)
  have ls: "latencies (tick_probe ?slow) = [600, 600, 600]"
    by (simp add: latencies_def test_targets_def)
  from assess_connection_quality_bands [where env = ?down] d
  have 1: "assess_connection_quality (check_results ?down) = no_connection" by blast
  from assess_connection_quality_bands [where env = ?fast] f
  have 2: "assess_connection_quality (check_results ?fast) = excellent"
    unfolding lf by auto
  from assess_connection_quality_bands [where env = ?slow] s
  have 3: "assess_connection_quality (check_results ?slow) = very_poor"
    unfolding ls by auto
  from 1 2 3 show ?thesis by blast
qed

text \<open>
  150 ticks with distinct clock readings and a query with limit 150.
\<close>

theorem connection_history_fifo_witness:
  "(100::nat) < length (map (\<lambda>i. \<lparr> tick_now = real i, tick_probe = (\<lambda>t. Connect_ok 30),
                                    tick_http = (\<lambda>s. Http_response 200 20) \<rparr>) [0..<150])
   \<and> (100::int) \<le> 150
   \<and> length (get_connection_history
        (fst (run_ticks init_connection_monitor
               (map (\<lambda>i. \<lparr> tick_now = real i, tick_probe = (\<lambda>t. Connect_ok 30),
                            tick_http = (\<lambda>s. Http_response 200 20) \<rparr>) [0..<150])))
        150) = 100"
  using connection_history_fifo
    [where self = init_connection_monitor and limit = 150
       and envs = "map (\<lambda>i. \<lparr> tick_now = real i, tick_probe = (\<lambda>t. Connect_ok 30),
                            tick_http = (\<lambda>s. Http_response 200 20) \<rparr>) [0..<150]"]
  by simp


text \<open>
  Claim C10.  With \<open>limit = 0\<close> the three history getters return the whole stored
  history (for the event bus: the whole history, or all events of the given name when a
  name is given), because \<^verbatim>\<open>xs[-0:]\<close> is the whole list.
\<close>

theorem history_limit_zero_returns_all:
  "get_connection_history cm 0 = connection_history cm
   \<and> get_status_history gm 0 = status_history gm
   \<and> get_event_history em None 0 = event_history em
   \<and> get_event_history em event_name 0 =
       (if event_name \<noteq> None \<and> event_name \<noteq> Some []
        then filter (\<lambda>event. Some (ev_name event) = event_name) (event_history em)
        else event_history em)"
  by (simp add: get_connection_history_def get_status_history_def get_event_history_def
        py_slice_from_zero)


lemma last_py_slice:
  "0 < n \<Longrightarrow> last (py_slice_from (xs @ [x]) (- int n)) = x"
  by (simp add: py_slice_last)

lemma log_status_data_last:
  "last (status_history (log_status_data gm info)) = info"
  using last_py_slice [of 1000 "status_history gm" info]
  by (simp add: log_status_data_def Let_def)

text \<open>
  Claim C2.  For each of the four combinations of \<open>game_running\<close> and
  \<open>connection_active\<close>, \<^verbatim>\<open>_update_status\<close> emits one \<open>game_status_changed\<close> whose status
  and whose snapshot carry the overall status of the table: running_connected,
  running_disconnected, not_running_connected, not_running_disconnected.  When data
  logging is on, that snapshot is the last entry of the status history.
\<close>

theorem update_status_overall_table:
  fixes gm :: "('p, 'c) game_monitor"
  shows "(\<exists>info. snd (update_status (gm\<lparr> game_running := True, connection_active := True \<rparr>) now p c)
              = [game_status_changed running_connected info]
            \<and> gs_overall_status info = running_connected)
       \<and> (\<exists>info. snd (update_status (gm\<lparr> game_running := True, connection_active := False \<rparr>) now p c)
              = [game_status_changed running_disconnected info]
            \<and> gs_overall_status info = running_disconnected)
       \<and> (\<exists>info. snd (update_status (gm\<lparr> game_running := False, connection_active := True \<rparr>) now p c)
              = [game_status_changed not_running_connected info]
            \<and> gs_overall_status info = not_running_connected)
       \<and> (\<exists>info. snd (update_status (gm\<lparr> game_running := False, connection_active := False \<rparr>) now p c)
              = [game_status_changed not_running_disconnected info]
            \<and> gs_overall_status info = not_running_disconnected)
       \<and> (log_data gm \<longrightarrow>
            snd (update_status gm now p c) =
              [game_status_changed
                 (gs_overall_status (last (status_history (fst (update_status gm now p c)))))
                 (last (status_history (fst (update_status gm now p c))))])"
  by (simp add: update_status_def Let_def log_status_data_last)

text \<open>
  A monitor with the game running and no connection, data logging on.
\<close>

theorem update_status_overall_table_witness:
  "log_data \<lparr> game_running = True, connection_active = False, last_status_update = 0,
        alerts_enabled = True, alert_callbacks = [], log_data = True,
        status_history = ([] :: (unit, unit) game_status_info list) \<rparr>
   \<and> map gs_overall_status (status_history (fst (update_status
        \<lparr> game_running = True, connection_active = False, last_status_update = 0,
          alerts_enabled = True, alert_callbacks = [], log_data = True,
          status_history = ([] :: (unit, unit) game_status_info list) \<rparr> 1 () ())))
     = [running_disconnected]"
  using update_status_overall_table
    [where gm = "\<lparr> game_running = True, connection_active = False, last_status_update = 0,
          alerts_enabled = True, alert_callbacks = [], log_data = True,
          status_history = ([] :: (unit, unit) game_status_info list) \<rparr>"
       and now = 1 and p = "()" and c = "()"]
  by (simp add: update_status_def Let_def log_status_data_def)






lemma last_tl_append: "xs \<noteq> [] \<Longrightarrow> last (tl (xs @ [x])) = x"
  by (cases xs) simp_all





lemma get_service_factory_only:
  assumes "factories self name = Some f" and "singletons self name = None"
    and "services self name = None" and "\<not> raises f"
  shows "get_service raises self name =
     (self\<lparr> calls := calls self @ [f] \<rparr>, Inr (Some (Instance f (length (calls self)))))"
  using assms by (simp add: get_service_def call_def)

lemma upt_0_Suc: "[0..<Suc n] = 0 # map Suc [0..<n]"
  by (simp add: upt_conv_Cons map_Suc_upt del: upt_Suc)

lemma get_service_times_factory_only:
  assumes "factories self name = Some f" and "singletons self name = None"
    and "services self name = None" and "\<not> raises f"
  shows "get_service_times raises self name n =
     (self\<lparr> calls := calls self @ replicate n f \<rparr>,
      map (\<lambda>i. Inr (Some (Instance f (length (calls self) + i)))) [0..<n])"
  using assms
proof (induction n arbitrary: self)
  case 0
  then show ?case by simp
next
  case (Suc n)
  let ?self1 = "self\<lparr> calls := calls self @ [f] \<rparr>"
  have step: "get_service raises self name =
      (?self1, Inr (Some (Instance f (length (calls self)))))"
    using Suc.prems by (rule get_service_factory_only)
  have rest: "get_service_times raises ?self1 name n =
     (?self1\<lparr> calls := calls ?self1 @ replicate n f \<rparr>,
      map (\<lambda>i. Inr (Some (Instance f (length (calls ?self1) + i)))) [0..<n])"
    using Suc.prems by (intro Suc.IH) simp_all
  show ?case
    by (simp add: step rest upt_0_Suc o_def del: upt_Suc)
qed

lemma get_service_cached:
  assumes "singletons self name = Some (Some obj)"
  shows "get_service raises self name = (self, Inr (Some obj))"
  using assms by (simp add: get_service_def)

lemma get_service_times_cached:
  assumes "singletons self name = Some (Some obj)"
  shows "get_service_times raises self name n = (self, replicate n (Inr (Some obj)))"
  using assms by (induction n) (simp_all add: get_service_cached)

lemma get_service_lazy:
  assumes "factories self name = Some f" and "singletons self name = Some None"
    and "services self name = None" and "\<not> raises f"
  shows "get_service raises self name =
     (self\<lparr> calls := calls self @ [f],
             singletons := (singletons self)(name \<mapsto> Some (Instance f (length (calls self)))) \<rparr>,
      Inr (Some (Instance f (length (calls self)))))"
  using assms by (simp add: get_service_def call_def)

text \<open>
  Claim C7, as the code has it.  For a name that has no singleton slot and no service
  class, registered through \<^verbatim>\<open>register_factory\<close> with a factory that does not raise,
  \<open>n\<close> calls of \<^verbatim>\<open>get_service\<close> call the factory \<open>n\<close> times and return \<open>n\<close> different
  objects; nothing is cached.  The factory is called once and its object returned by
  every later call only when the name also holds a singleton slot set to \<^verbatim>\<open>None\<close>
  (and no service class).
\<close>

theorem factory_called_on_every_get:
  "(singletons self name = None \<and> services self name = None \<and> \<not> raises f \<longrightarrow>
      get_service_times raises (register_factory self name f) name n =
        ((register_factory self name f)\<lparr> calls := calls self @ replicate n f \<rparr>,
         map (\<lambda>i. Inr (Some (Instance f (length (calls self) + i)))) [0..<n]))
   \<and> (singletons self name = Some None \<and> services self name = None \<and> \<not> raises f \<longrightarrow>
      get_service_times raises (register_factory self name f) name (Suc n) =
        ((register_factory self name f)
           \<lparr> calls := calls self @ [f],
             singletons := (singletons self)(name \<mapsto> Some (Instance f (length (calls self)))) \<rparr>,
         replicate (Suc n) (Inr (Some (Instance f (length (calls self)))))))"
proof (intro conjI impI)
  assume h: "singletons self name = None \<and> services self name = None \<and> \<not> raises f"
  let ?reg = "register_factory self name f"
  from h have "factories ?reg name = Some f" "singletons ?reg name = None"
    "services ?reg name = None" "\<not> raises f"
    by (simp_all add: register_factory_def)
  from get_service_times_factory_only
         [where self = ?reg and name = name and f = f and raises = raises and n = n, OF this]
  show "get_service_times raises ?reg name n =
        (?reg\<lparr> calls := calls self @ replicate n f \<rparr>,
         map (\<lambda>i. Inr (Some (Instance f (length (calls self) + i)))) [0..<n])"
    by (simp add: register_factory_def)
next
  assume h: "singletons self name = Some None \<and> services self name = None \<and> \<not> raises f"
  let ?reg = "register_factory self name f"
  let ?obj = "Instance f (length (calls self))"
  let ?reg1 = "?reg\<lparr> calls := calls self @ [f],
             singletons := (singletons self)(name \<mapsto> Some ?obj) \<rparr>"
  from h have "factories ?reg name = Some f" "singletons ?reg name = Some None"
    "services ?reg name = None" "\<not> raises f"
    by (simp_all add: register_factory_def)
  from get_service_lazy [where self = ?reg and name = name and f = f and raises = raises, OF this]
  have first: "get_service raises ?reg name = (?reg1, Inr (Some ?obj))"
    by (simp add: register_factory_def)
  have "singletons ?reg1 name = Some (Some ?obj)" by simp
  from get_service_times_cached
         [where self = ?reg1 and name = name and raises = raises and n = n, OF this]
  have rest: "get_service_times raises ?reg1 name n = (?reg1, replicate n (Inr (Some ?obj)))" .
  show "get_service_times raises ?reg name (Suc n) = (?reg1, replicate (Suc n) (Inr (Some ?obj)))"
    by (simp add: first rest)
qed

text \<open>
  A factory registered on the empty registry, and the same factory registered after
  \<^verbatim>\<open>register_instance(name, None)\<close> made a singleton slot.
\<close>

theorem factory_called_on_every_get_witness:
  "singletons init_service_registry ''svc'' = None
   \<and> services init_service_registry ''svc'' = None
   \<and> get_service_times (\<lambda>f. False) (register_factory init_service_registry ''svc'' 7) ''svc'' 3 =
       ((register_factory init_service_registry ''svc'' 7)\<lparr> calls := [7, 7, 7] \<rparr>,
        [Inr (Some (Instance 7 0)), Inr (Some (Instance 7 1)), Inr (Some (Instance 7 2))])
   \<and> singletons (register_instance init_service_registry ''svc'' None) ''svc'' = Some None
   \<and> services (register_instance init_service_registry ''svc'' None) ''svc'' = None
   \<and> snd (get_service_times (\<lambda>f. False)
        (register_factory (register_instance init_service_registry ''svc'' None) ''svc'' 7)
        ''svc'' 3) =
       [Inr (Some (Instance 7 0)), Inr (Some (Instance 7 0)), Inr (Some (Instance 7 0))]"
proof -
  let ?r0 = init_service_registry
  let ?r1 = "register_instance init_service_registry ''svc'' None"
  have a: "singletons ?r0 ''svc'' = None \<and> services ?r0 ''svc'' = None \<and> \<not> (\<lambda>f::nat. False) 7"
    by (simp add: init_service_registry_def)
  have b: "singletons ?r1 ''svc'' = Some None \<and> services ?r1 ''svc'' = None \<and> \<not> (\<lambda>f::nat. False) 7"
    by (simp add: init_service_registry_def register_instance_def)
  have c: "calls ?r0 = []" "calls ?r1 = []"
    by (simp_all add: init_service_registry_def register_instance_def)
  have u: "[0..<3] = [0, 1, 2]" by (simp add: upt_rec)
  note t0 = factory_called_on_every_get
      [where self = ?r0 and name = "''svc''" and f = 7 and raises = "\<lambda>f. False" and n = 3,
        THEN conjunct1, rule_format, OF a]
  note t1 = factory_called_on_every_get
      [where self = ?r1 and name = "''svc''" and f = 7 and raises = "\<lambda>f. False" and n = 2,
        THEN conjunct2, rule_format, OF b]
  from t0 have r0: "get_service_times (\<lambda>f. False) (register_factory ?r0 ''svc'' 7) ''svc'' 3 =
       ((register_factory ?r0 ''svc'' 7)\<lparr> calls := [7, 7, 7] \<rparr>,
        [Inr (Some (Instance 7 0)), Inr (Some (Instance 7 1)), Inr (Some (Instance 7 2))])"
    unfolding c u by (simp add: numeral_3_eq_3)
  from t1 have r1: "snd (get_service_times (\<lambda>f. False) (register_factory ?r1 ''svc'' 7) ''svc'' 3) =
       [Inr (Some (Instance 7 0)), Inr (Some (Instance 7 0)), Inr (Some (Instance 7 0))]"
    unfolding c by (simp add: numeral_3_eq_3)
  from a b r0 r1 show ?thesis by simp
qed

text \<open>
  A factory registered on the empty registry and two calls of \<^verbatim>\<open>get_service\<close>: the
  factory is called twice and the two objects returned differ.
\<close>

theorem register_factory_lazy_singleton_counterexample:
  "calls (fst (get_service_times (\<lambda>f. False)
       (register_factory init_service_registry ''svc'' 7) ''svc'' 2)) = [7, 7]
   \<and> snd (get_service_times (\<lambda>f. False)
       (register_factory init_service_registry ''svc'' 7) ''svc'' 2)
     = [Inr (Some (Instance 7 0)), Inr (Some (Instance 7 1))]
   \<and> Instance 7 0 \<noteq> Instance 7 1"
  by (simp add: numeral_2_eq_2 get_service_def call_def register_factory_def
        init_service_registry_def)


lemma create_backup_failed:
  "snd (create_backup self config_file stamp) = False \<Longrightarrow>
     fst (create_backup self config_file stamp) = self"
  by (simp add: create_backup_def Let_def split: option.splits if_splits)


text \<open>
  Claim C1, as the code has it.  The result of \<^verbatim>\<open>_create_backup\<close> is not looked at: when
  the target file exists and the backup step fails, \<^verbatim>\<open>write_config\<close> with
  \<^verbatim>\<open>create_backup=True\<close> does exactly what it does with \<^verbatim>\<open>create_backup=False\<close>; when the
  file can be opened and the data serialised, the file is overwritten, the cache is
  updated, the watcher is notified and the call returns \<^verbatim>\<open>True\<close>.
\<close>

theorem write_config_backup_failure_ignored:
  assumes "find_config_file self config_name = Some config_file"
    and "snd (create_backup self config_file stamp) = False"
  shows "write_config c self stamp config_name config_data True =
           write_config c self stamp config_name config_data False
       \<and> (writable self config_file \<and> format_of (lower (path_suffix config_file)) = Some fmt
            \<and> dump c fmt config_data = Inr written \<longrightarrow>
          write_config c self stamp config_name config_data True =
            (notify_config_change
               (self\<lparr> files := (files self)(config_file \<mapsto> written),
                       config_cache := (config_cache self)(config_name \<mapsto> PDict config_data) \<rparr>)
               config_name config_data,
             True))"
proof -
  from assms(2) have same: "fst (create_backup self config_file stamp) = self"
    by (rule create_backup_failed)
  have eq: "write_config c self stamp config_name config_data True =
           write_config c self stamp config_name config_data False"
    using assms(1) same by (simp add: write_config_def Let_def)
  have "write_config c self stamp config_name config_data False =
            (notify_config_change
               (self\<lparr> files := (files self)(config_file \<mapsto> written),
                       config_cache := (config_cache self)(config_name \<mapsto> PDict config_data) \<rparr>)
               config_name config_data,
             True)"
    if "writable self config_file \<and> format_of (lower (path_suffix config_file)) = Some fmt
            \<and> dump c fmt config_data = Inr written"
    using that assms(1) by (simp add: write_config_def Let_def write_config_file_def)
  with eq show ?thesis by simp
qed


lemma suffix_config_yaml: "lower (path_suffix ''config.yaml'') = ''.yaml''"
  by code_simp

lemma find_sample: "find_config_file sample_bridge ''config'' = Some ''config.yaml''"
  by (simp add: find_config_file_def sample_bridge_def extensions_def)

lemma backup_sample: "snd (create_backup sample_bridge ''config.yaml'' ''20250101_120000'') = False"
  by (simp add: create_backup_def sample_bridge_def Let_def)

text \<open>
  The sample bridge: \<^verbatim>\<open>config.yaml\<close> exists and no copy into the backup directory succeeds.
\<close>

theorem write_config_backup_failure_ignored_witness:
  "find_config_file sample_bridge ''config'' = Some ''config.yaml''
   \<and> snd (create_backup sample_bridge ''config.yaml'' ''20250101_120000'') = False
   \<and> write_config sample_codec sample_bridge ''20250101_120000'' ''config'' [''x'' \<mapsto> PInt 1] True
       = write_config sample_codec sample_bridge ''20250101_120000'' ''config'' [''x'' \<mapsto> PInt 1] False
   \<and> snd (write_config sample_codec sample_bridge ''20250101_120000'' ''config''
            [''x'' \<mapsto> PInt 1] True) = True"
proof -
  have w: "writable sample_bridge ''config.yaml''
      \<and> format_of (lower (path_suffix ''config.yaml'')) = Some Yaml
      \<and> dump sample_codec Yaml [''x'' \<mapsto> PInt 1] = Inr ''x: 1''"
    by (simp add: suffix_config_yaml format_of_def sample_bridge_def sample_codec_def)
  note t = write_config_backup_failure_ignored [OF find_sample backup_sample,
      where c = sample_codec and config_data = "[''x'' \<mapsto> PInt 1]" and fmt = Yaml
        and written = "''x: 1''"]
  from t [THEN conjunct2, rule_format, OF w]
  have "snd (write_config sample_codec sample_bridge ''20250101_120000'' ''config''
            [''x'' \<mapsto> PInt 1] True) = True"
    by simp
  with t [THEN conjunct1] find_sample backup_sample show ?thesis by blast
qed

text \<open>
  On the sample bridge the backup step fails, and the write still goes through: the call
  returns \<^verbatim>\<open>True\<close>, the file has the new text, the cache has the new mapping and the
  watcher was called.
\<close>

theorem write_config_fail_closed_counterexample:
  "files sample_bridge ''config.yaml'' = Some ''x: 0''
   \<and> snd (create_backup sample_bridge ''config.yaml'' ''20250101_120000'') = False
   \<and> snd (write_config sample_codec sample_bridge ''20250101_120000'' ''config''
            [''x'' \<mapsto> PInt 1] True) = True
   \<and> files (fst (write_config sample_codec sample_bridge ''20250101_120000'' ''config''
            [''x'' \<mapsto> PInt 1] True)) ''config.yaml'' = Some ''x: 1''
   \<and> config_cache (fst (write_config sample_codec sample_bridge ''20250101_120000'' ''config''
            [''x'' \<mapsto> PInt 1] True)) ''config'' = Some (PDict [''x'' \<mapsto> PInt 1])
   \<and> notified (fst (write_config sample_codec sample_bridge ''20250101_120000'' ''config''
            [''x'' \<mapsto> PInt 1] True)) = [(1, ''config'', [''x'' \<mapsto> PInt 1])]"
proof -
  have b: "fst (create_backup sample_bridge ''config.yaml'' ''20250101_120000'') = sample_bridge"
    using backup_sample by (rule create_backup_failed)
  have e: "files sample_bridge ''config.yaml'' = Some ''x: 0''"
    by (simp add: sample_bridge_def)
  have w: "write_config sample_codec sample_bridge ''20250101_120000'' ''config''
            [''x'' \<mapsto> PInt 1] True =
      (notify_config_change
         (sample_bridge\<lparr> files := (files sample_bridge)(''config.yaml'' \<mapsto> ''x: 1''),
            config_cache := (config_cache sample_bridge)(''config'' \<mapsto> PDict [''x'' \<mapsto> PInt 1]) \<rparr>)
         ''config'' [''x'' \<mapsto> PInt 1], True)"
    unfolding write_config_def find_sample
    by (simp add: b e Let_def write_config_file_def suffix_config_yaml format_of_def)
       (simp add: sample_bridge_def sample_codec_def)
  show ?thesis
    unfolding w using backup_sample e
    by (simp add: notify_config_change_def) (simp add: sample_bridge_def)
qed


lemma c_int_id: "- 2147483648 \<le> i \<Longrightarrow> i < 2147483648 \<Longrightarrow> c_int i = i"
  by (simp add: c_int_def)

lemma handle_no_processes_signals:
  "current_pid s = Some pid \<Longrightarrow>
     handle_no_processes s =
       (s\<lparr> current_pid := None, current_process := None, process_info := Map.empty \<rparr>,
        [process_lost (c_int pid), status_changed ''not_running'' Map.empty])"
  by (simp add: handle_no_processes_def)

text \<open>The status lookup of the current process fails as for a process that is gone.\<close>

lemma update_process_status_found_lost:
  assumes "current_pid s = Some pid" and "current_process s \<noteq> None"
  shows "filter is_found_or_lost (snd (update_process_status s env)) =
           (if scan_is_running env \<and> scan_status env \<in> {Inl NoSuchProcess, Inl AccessDenied}
            then [process_lost (c_int pid)] else [])
       \<and> current_pid (fst (update_process_status s env)) =
           (if scan_is_running env \<and> scan_status env \<in> {Inl NoSuchProcess, Inl AccessDenied}
            then None else Some pid)"
proof (cases "scan_is_running env")
  case False
  with assms show ?thesis by (simp add: update_process_status_def)
next
  case True
  let ?s1 = "s\<lparr> process_info := process_info s ++ scan_updated_info env \<rparr>"
  have pid1: "current_pid ?s1 = Some pid" using assms(1) by simp
  show ?thesis
  proof (cases "scan_status env")
    case (Inl e)
    with True assms pid1 show ?thesis
      by (cases e)
         (simp_all add: update_process_status_def Let_def handle_no_processes_signals)
  next
    case (Inr status)
    with True assms show ?thesis
      by (simp add: update_process_status_def Let_def filter_map o_def)
  qed
qed

text \<open>
  Claim C3, as the code has it.  When the tracker follows PID \<open>A\<close> and a scan in which
  every process has a readable name finds, as its first matching process, one with PID
  \<open>B \<noteq> A\<close>, the first two signals of the scan are \<open>process_lost A\<close> and then
  \<open>process_found B name\<close> with the name of that process, nothing between them.  They are
  the only found and lost signals of the scan, and the tracker follows \<open>B\<close> afterwards,
  unless the status lookup of \<open>B\<close> fails in the same scan as for a process that is
  gone: then \<open>process_lost B\<close> follows the pair and the tracker follows no process.
  The PIDs are those the signals carry.
\<close>

theorem pid_change_lost_then_found:
  assumes "current_pid self = Some A"
    and "\<forall>p \<in> set (scan_processes_seen env). se_name p \<noteq> None"
    and "filter (is_target (target_processes self)) (scan_processes_seen env) = proc # others"
    and "se_pid proc = B"
    and "A \<noteq> B"
  shows "\<exists>name. se_name proc = Some name
       \<and> take 2 (snd (scan_processes self env)) =
           [process_lost (c_int A), process_found (c_int B) name]
       \<and> filter is_found_or_lost (snd (scan_processes self env)) =
           [process_lost (c_int A), process_found (c_int B) name]
           @ (if scan_is_running env \<and> scan_status env \<in> {Inl NoSuchProcess, Inl AccessDenied}
              then [process_lost (c_int B)] else [])
       \<and> current_pid (fst (scan_processes self env)) =
           (if scan_is_running env \<and> scan_status env \<in> {Inl NoSuchProcess, Inl AccessDenied}
            then None else Some B)"
proof -
  from assms(2) have no_abort: "\<not> list_ex (\<lambda>proc. se_name proc = None) (scan_processes_seen env)"
    by (simp add: list_ex_iff)
  from assms(3) have "proc \<in> set (filter (is_target (target_processes self)) (scan_processes_seen env))"
    by simp
  then have "proc \<in> set (scan_processes_seen env)" by simp
  with assms(2) obtain name where name: "se_name proc = Some name" by auto
  let ?self1 = "self\<lparr> current_pid := Some B, current_process := Some B,
                       process_info := scan_found_info env \<rparr>"
  have scan: "scan_processes self env =
      (fst (update_process_status ?self1 env),
       [process_lost (c_int A), process_found (c_int B) name]
       @ snd (update_process_status ?self1 env))"
    using no_abort assms(1,3,4,5) name
    by (simp add: scan_processes_def Let_def split_def)
  have "current_pid ?self1 = Some B" and "current_process ?self1 \<noteq> None" by simp_all
  note rest = update_process_status_found_lost [OF this, of env]
  show ?thesis
    unfolding scan using name rest by simp
qed

text \<open>
  A tracker following PID 100 and a scan that sees an unrelated process and the game
  under PID 200, whose name matches a target after lower-casing.
\<close>

theorem pid_change_lost_then_found_witness:
  "current_pid (init_process_tracker\<lparr> current_pid := Some 100, current_process := Some 100 \<rparr>)
     = Some 100
   \<and> (100::int) \<noteq> 200
   \<and> filter is_found_or_lost (snd (scan_processes
         (init_process_tracker\<lparr> current_pid := Some 100, current_process := Some 100 \<rparr>)
         \<lparr> scan_processes_seen =
             [\<lparr> se_pid = 7, se_name = Some ''explorer.exe'' \<rparr>,
              \<lparr> se_pid = 200, se_name = Some ''RF4.exe'' \<rparr>],
           scan_found_info = Map.empty, scan_updated_info = Map.empty,
           scan_is_running = True, scan_status = Inr STATUS_RUNNING \<rparr>))
     = [process_lost 100, process_found 200 ''RF4.exe'']
   \<and> current_pid (fst (scan_processes
         (init_process_tracker\<lparr> current_pid := Some 100, current_process := Some 100 \<rparr>)
         \<lparr> scan_processes_seen =
             [\<lparr> se_pid = 7, se_name = Some ''explorer.exe'' \<rparr>,
              \<lparr> se_pid = 200, se_name = Some ''RF4.exe'' \<rparr>],
           scan_found_info = Map.empty, scan_updated_info = Map.empty,
           scan_is_running = True, scan_status = Inr STATUS_RUNNING \<rparr>)) = Some 200"
proof -
  let ?self = "init_process_tracker\<lparr> current_pid := Some 100, current_process := Some 100 \<rparr>"
  let ?env = "\<lparr> scan_processes_seen =
             [\<lparr> se_pid = 7, se_name = Some ''explorer.exe'' \<rparr>,
              \<lparr> se_pid = 200, se_name = Some ''RF4.exe'' \<rparr>],
           scan_found_info = Map.empty, scan_updated_info = Map.empty,
           scan_is_running = True, scan_status = Inr STATUS_RUNNING \<rparr>"
  have yes: "is_target (target_processes init_process_tracker)
      \<lparr> se_pid = 200, se_name = Some ''RF4.exe'' \<rparr>" by code_simp
  have no: "\<not> is_target (target_processes init_process_tracker)
      \<lparr> se_pid = 7, se_name = Some ''explorer.exe'' \<rparr>" by code_simp
  have t: "target_processes ?self = target_processes init_process_tracker" by simp
  have 1: "current_pid ?self = Some 100" by simp
  have 2: "\<forall>p \<in> set (scan_processes_seen ?env). se_name p \<noteq> None" by simp
  have 3: "filter (is_target (target_processes ?self)) (scan_processes_seen ?env)
      = \<lparr> se_pid = 200, se_name = Some ''RF4.exe'' \<rparr> # []"
    unfolding t using yes no by simp
  have 4: "se_pid \<lparr> se_pid = 200, se_name = Some ''RF4.exe'' \<rparr> = 200" by simp
  have 5: "(100::int) \<noteq> 200" by simp
  from pid_change_lost_then_found [OF 1 2 3 4 5]
  have "filter is_found_or_lost (snd (scan_processes ?self ?env))
          = [process_lost 100, process_found 200 ''RF4.exe'']
      \<and> current_pid (fst (scan_processes ?self ?env)) = Some 200"
    by (simp add: c_int_def)
  with 1 5 show ?thesis by blast
qed

text \<open>
  The same change of PID in a scan during which the new process goes away between its
  discovery and the lookup of its status: three found and lost signals are emitted, not
  the pair alone.
\<close>

theorem pid_change_exactly_pair_counterexample:
  "filter is_found_or_lost (snd (scan_processes
       (init_process_tracker\<lparr> current_pid := Some 100, current_process := Some 100 \<rparr>)
       \<lparr> scan_processes_seen = [\<lparr> se_pid = 200, se_name = Some ''RF4.exe'' \<rparr>],
         scan_found_info = Map.empty, scan_updated_info = Map.empty,
         scan_is_running = True, scan_status = Inl NoSuchProcess \<rparr>))
     = [process_lost 100, process_found 200 ''RF4.exe'', process_lost 200]
   \<and> current_pid (fst (scan_processes
       (init_process_tracker\<lparr> current_pid := Some 100, current_process := Some 100 \<rparr>)
       \<lparr> scan_processes_seen = [\<lparr> se_pid = 200, se_name = Some ''RF4.exe'' \<rparr>],
         scan_found_info = Map.empty, scan_updated_info = Map.empty,
         scan_is_running = True, scan_status = Inl NoSuchProcess \<rparr>)) = None"
proof -
  let ?self = "init_process_tracker\<lparr> current_pid := Some 100, current_process := Some 100 \<rparr>"
  have yes: "is_target (target_processes init_process_tracker)
      \<lparr> se_pid = 200, se_name = Some ''RF4.exe'' \<rparr>" by code_simp
  have t: "target_processes ?self = target_processes init_process_tracker" by simp
  show ?thesis
    unfolding scan_processes_def t
    using yes
    by (simp add: Let_def split_def update_process_status_def handle_no_processes_def c_int_def)
qed










lemma files_notify [simp]:
  "files (notify_config_change self config_name config_data) = files self"
  by (simp add: notify_config_change_def split: option.splits)

lemma files_create_backup [simp]:
  "files (fst (create_backup self config_file stamp)) = files self"
  by (simp add: create_backup_def Let_def split: option.splits)














end
